theory Spec2Isabelle
  imports Complex_Main "HOL-Library.Sublist" "HOL-Library.AList" "HOL-Library.Word"
begin

unbundle bit_operations_syntax

section \<open>Python strings\<close>

text \<open>
  A Python \<open>str\<close> is modelled as a HOL \<open>string\<close>, one \<open>char\<close> per code point (field
  names, session identifiers, URLs and ARNs are ASCII). \<open>lower\<close> is \<open>str.lower\<close> on
  that range: it maps \<open>A\<close>..\<open>Z\<close> to \<open>a\<close>..\<open>z\<close> and leaves every other character alone.
\<close>

definition lower_char :: "char \<Rightarrow> char" where
  "lower_char c =
     (let n = (of_char c :: nat) in if 65 \<le> n \<and> n \<le> 90 then char_of (n + 32) else c)"

definition lower :: "string \<Rightarrow> string" where
  "lower s = map lower_char s"

text \<open>\<open>sub in s\<close> on strings: \<open>sub\<close> occurs in \<open>s\<close> as a contiguous run.\<close>

fun str_in :: "string \<Rightarrow> string \<Rightarrow> bool" where
  "str_in sub [] = (sub = [])"
| "str_in sub (c # s) = (prefix sub (c # s) \<or> str_in sub s)"

text \<open>
  \<open>s.split(sep)\<close> for a one-character separator: the pieces between the separators, in
  order; always at least one piece, empty pieces kept.
\<close>

fun split :: "char \<Rightarrow> string \<Rightarrow> string list" where
  "split sep [] = [[]]"
| "split sep (c # s) =
     (if c = sep then [] # split sep s
      else (case split sep s of
              [] \<Rightarrow> [[c]]
            | p # ps \<Rightarrow> (c # p) # ps))"

section \<open>Errors and outcomes\<close>

text \<open>
  The exceptions the script can raise and never catches, and the two ways a run ends
  early: \<open>sys.exit(n)\<close> and an uncaught exception.
\<close>

datatype error =
    NameError
  | KeyError
  | IndexError
  | UnboundLocalError
  | AttributeError
  | ValueError
  | IsADirectoryError
  | DecodeError
  | ClientError
  | DuplicateSectionError
  | NoSectionError

datatype outcome = SystemExit nat | Uncaught error

section \<open>HTML pages\<close>

text \<open>
  \<open>BeautifulSoup(text, "html.parser")\<close> is a library call; the model takes its result: the
  elements of the page in document order, each with its tag name and its attribute
  dictionary.
\<close>

record element =
  tag_name :: string
  attrs :: "(string \<times> string) list"

text \<open>\<open>tag.get(key)\<close> and \<open>tag.get(key, default)\<close>.\<close>

definition get_attr :: "element \<Rightarrow> string \<Rightarrow> string option" where
  "get_attr e k = map_of (attrs e) k"

definition get_attr_default :: "element \<Rightarrow> string \<Rightarrow> string \<Rightarrow> string" where
  "get_attr_default e k d = (case map_of (attrs e) k of None \<Rightarrow> d | Some v \<Rightarrow> v)"

text \<open>
  \<open>find_all(re.compile('(INPUT|input)'))\<close> keeps the elements whose tag name the pattern
  finds a match in (a search, not a full match); \<open>find_all('input')\<close> keeps the elements
  whose tag name is exactly \<open>input\<close>.
\<close>

definition find_all_re :: "string \<Rightarrow> string \<Rightarrow> element list \<Rightarrow> element list" where
  "find_all_re upper_alt lower_alt soup =
     filter (\<lambda>e. str_in upper_alt (tag_name e) \<or> str_in lower_alt (tag_name e)) soup"

definition find_all :: "string \<Rightarrow> element list \<Rightarrow> element list" where
  "find_all nm soup = filter (\<lambda>e. tag_name e = nm) soup"

section \<open>The login form payload (\<open>okta_password_login\<close>, lines 72--83)\<close>

text \<open>
  One iteration of the loop over the input tags: \<open>payload[name] = ...\<close>. The payload is a
  Python dict; assigning to a key that is present replaces its value in place, a new key
  is appended.
\<close>

definition payload_step ::
  "string \<Rightarrow> string \<Rightarrow> (string \<times> string) list \<Rightarrow> element \<Rightarrow> (string \<times> string) list" where
  "payload_step username password payload inputtag =
     (let name = get_attr_default inputtag ''name'' '''';
          val = get_attr_default inputtag ''value'' ''''
      in if str_in ''user'' (lower name) then AList.update name username payload
         else if str_in ''pass'' (lower name) then AList.update name password payload
         else AList.update name val payload)"

definition login_payload :: "string \<Rightarrow> string \<Rightarrow> element list \<Rightarrow> (string \<times> string) list" where
  "login_payload username password formsoup =
     foldl (payload_step username password) [] (find_all_re ''INPUT'' ''input'' formsoup)"

section \<open>The form submission URL (\<open>okta_password_login\<close>, lines 68 and 86--93)\<close>

text \<open>
  \<open>urlparse\<close> is a library call. The model computes the two components the script reads,
  as \<open>urllib.parse.urlsplit\<close> does for a URL with no leading blanks, no tab or newline and
  no bracketed host: the scheme is the text up to the first colon when that text starts
  with a letter and holds scheme characters only (lower-cased), and the netloc is what
  follows a leading \<open>//\<close> up to the first of \<open>/\<close>, \<open>?\<close> and \<open>#\<close>.
\<close>

record parsed_url =
  scheme :: string
  netloc :: string

definition is_alpha :: "char \<Rightarrow> bool" where
  "is_alpha c = (let n = (of_char c :: nat) in (65 \<le> n \<and> n \<le> 90) \<or> (97 \<le> n \<and> n \<le> 122))"

definition is_scheme_char :: "char \<Rightarrow> bool" where
  "is_scheme_char c =
     (let n = (of_char c :: nat)
      in is_alpha c \<or> (48 \<le> n \<and> n \<le> 57) \<or> c = CHR ''+'' \<or> c = CHR ''-'' \<or> c = CHR ''.'')"

definition is_netloc_end :: "char \<Rightarrow> bool" where
  "is_netloc_end c = (c = CHR ''/'' \<or> c = CHR ''?'' \<or> c = CHR ''#'')"

definition urlparse :: "string \<Rightarrow> parsed_url" where
  "urlparse url =
     (let pre = takeWhile (\<lambda>c. c \<noteq> CHR '':'') url;
          found = (length pre < length url);
          has_scheme = (found \<and> pre \<noteq> [] \<and> is_alpha (hd pre) \<and> list_all is_scheme_char pre);
          sch = (if has_scheme then lower pre else []);
          rest = (if has_scheme then drop (length pre + 1) url else url);
          loc = (if take 2 rest = ''//''
                 then takeWhile (\<lambda>c. \<not> is_netloc_end c) (drop 2 rest) else [])
      in \<lparr>scheme = sch, netloc = loc\<rparr>)"

text \<open>
  One iteration of the loop over the form tags: a form whose \<open>action\<close> is present and
  non-empty replaces the submission URL by \<open>scheme://netloc\<close> of the entry URL followed
  by the action.
\<close>

definition submit_step :: "string \<Rightarrow> string \<Rightarrow> element \<Rightarrow> string" where
  "submit_step idp_entry_url idpauthformsubmiturl inputtag =
     (case get_attr inputtag ''action'' of
        None \<Rightarrow> idpauthformsubmiturl
      | Some action \<Rightarrow>
          if action = [] then idpauthformsubmiturl
          else let parsedurl = urlparse idp_entry_url
               in scheme parsedurl @ ''://'' @ netloc parsedurl @ action)"

definition form_submit_url :: "string \<Rightarrow> string \<Rightarrow> element list \<Rightarrow> string" where
  "form_submit_url idp_entry_url final_url formsoup =
     foldl (submit_step idp_entry_url) final_url (find_all_re ''FORM'' ''form'' formsoup)"

section \<open>The session cache file (\<open>get_sid_from_file\<close>, \<open>write_sid_file\<close>)\<close>

text \<open>
  The file system as the two functions see it: a path names nothing, a directory, or a
  regular file with its content and permission bits. Content is the text \<open>read()\<close>
  returns (one \<open>char\<close> per character; the identifier is ASCII, so \<open>sid.encode()\<close> is the
  same text). Access checks are not modelled: a file that exists can be opened.
\<close>

datatype entry = File (content: string) (mode: "32 word") | Dir

type_synonym filesystem = "string \<Rightarrow> entry option"

definition isfile :: "filesystem \<Rightarrow> string \<Rightarrow> bool" where
  "isfile fs path = (case fs path of Some (File c m) \<Rightarrow> True | _ \<Rightarrow> False)"

definition get_sid_from_file :: "filesystem \<Rightarrow> string \<Rightarrow> string option" where
  "get_sid_from_file fs sid_cache_file =
     (if isfile fs sid_cache_file
      then (case fs sid_cache_file of
              Some (File sid m) \<Rightarrow> if length sid = 25 then Some sid else None
            | _ \<Rightarrow> None)
      else None)"

text \<open>
  \<open>os.open(sid_file, O_WRONLY|O_CREAT, mode=0o600)\<close>, \<open>os.write\<close>, \<open>os.close\<close>. The flags
  hold no \<open>O_TRUNC\<close>: a file that exists is opened as it is, keeps its permission bits,
  and the write replaces its first \<open>len(sid)\<close> characters. A file that does not exist is
  created empty with mode \<open>0o600\<close> less the bits of the process's umask. \<open>0o600\<close> is 384.
\<close>

definition write_sid_file :: "32 word \<Rightarrow> filesystem \<Rightarrow> string \<Rightarrow> string \<Rightarrow> error + filesystem" where
  "write_sid_file umask fs sid_file sid =
     (case fs sid_file of
        None \<Rightarrow> Inr (fs(sid_file \<mapsto> File sid (384 AND NOT umask)))
      | Some Dir \<Rightarrow> Inl IsADirectoryError
      | Some (File old m) \<Rightarrow> Inr (fs(sid_file \<mapsto> File (sid @ drop (length sid) old) m)))"

section \<open>The SAML assertion (\<open>get_saml_assertion\<close>, \<open>get_arns_from_assertion\<close>)\<close>

text \<open>
  \<open>get_saml_assertion\<close>: the \<open>value\<close> of the first \<open>input\<close> tag named \<open>SAMLResponse\<close>;
  \<open>None\<close> when there is no such tag, and also when that tag has no \<open>value\<close>.
\<close>

definition get_saml_assertion :: "element list \<Rightarrow> string option" where
  "get_saml_assertion soup =
     (case find (\<lambda>inputtag. get_attr inputtag ''name'' = Some ''SAMLResponse'')
             (find_all ''input'' soup) of
        None \<Rightarrow> None
      | Some inputtag \<Rightarrow> get_attr inputtag ''value'')"

text \<open>
  An \<open>ElementTree\<close> element: tag, attributes, text (\<open>None\<close> for an element with no text)
  and children. \<open>iter(tag)\<close> walks the element itself and all its descendants in document
  order and keeps those with the tag.
\<close>

datatype xml =
  Element (tag: string) (attrib: "(string \<times> string) list") (elem_text: "string option")
    (children: "xml list")

fun iter_all :: "xml \<Rightarrow> xml list" where
  "iter_all (Element t a x cs) = Element t a x cs # concat (map iter_all cs)"

definition iter :: "string \<Rightarrow> xml \<Rightarrow> xml list" where
  "iter t e = filter (\<lambda>x. tag x = t) (iter_all e)"

definition urn :: string where
  "urn = ''{urn:oasis:names:tc:SAML:2.0:assertion}''"

definition urn_attribute :: string where
  "urn_attribute = urn @ ''Attribute''"

definition urn_attributevalue :: string where
  "urn_attributevalue = urn @ ''AttributeValue''"

definition role_url :: string where
  "role_url = ''https://aws.amazon.com/SAML/Attributes/Role''"

text \<open>
  The two nested loops of lines 149--152. The variable \<open>arns\<close> is unbound (outer \<open>None\<close>)
  until the inner loop body runs; every run of the body overwrites it with the text of
  the value element at hand.
\<close>

definition arns_inner :: "string option option \<Rightarrow> xml \<Rightarrow> string option option" where
  "arns_inner arns saml2attribute =
     foldl (\<lambda>acc saml2attributevalue. Some (elem_text saml2attributevalue)) arns
       (iter urn_attributevalue saml2attribute)"

definition arns_loop :: "xml \<Rightarrow> string option option" where
  "arns_loop root_elem =
     foldl (\<lambda>arns saml2attribute.
              if map_of (attrib saml2attribute) ''Name'' = Some role_url
              then arns_inner arns saml2attribute else arns)
       None (iter urn_attribute root_elem)"

record arn_dict =
  RoleArn :: string
  PrincipalArn :: string
  SAMLAssertion :: string

text \<open>
  \<open>decode\<close> stands for \<open>ET.fromstring(base64.b64decode(assertion))\<close>, two library calls;
  \<open>None\<close> is their raising. After the loops: \<open>arns\<close> unbound raises
  \<open>UnboundLocalError\<close>, \<open>arns\<close> equal to \<open>None\<close> has no \<open>split\<close>, and fewer than two
  comma-separated pieces make \<open>[1]\<close> raise \<open>IndexError\<close>.
\<close>

definition get_arns_from_assertion :: "(string \<Rightarrow> xml option) \<Rightarrow> string \<Rightarrow> error + arn_dict" where
  "get_arns_from_assertion decode assertion =
     (case decode assertion of
        None \<Rightarrow> Inl DecodeError
      | Some root_elem \<Rightarrow>
          (case arns_loop root_elem of
             None \<Rightarrow> Inl UnboundLocalError
           | Some None \<Rightarrow> Inl AttributeError
           | Some (Some arns) \<Rightarrow>
               (case split (CHR '','') arns of
                  p # r # rest \<Rightarrow> Inr \<lparr>RoleArn = r, PrincipalArn = p, SAMLAssertion = assertion\<rparr>
                | _ \<Rightarrow> Inl IndexError)))"

section \<open>The credentials file (\<open>write_aws_creds\<close>)\<close>

text \<open>
  A credentials file is represented by what \<open>RawConfigParser.read\<close> makes of it: the
  options of the \<open>DEFAULT\<close> section and the other sections in file order, each an ordered
  dictionary of options. A file that does not exist reads as the empty configuration.
  \<open>has_section\<close>, \<open>add_section\<close> and \<open>set\<close> follow \<open>configparser\<close>: \<open>DEFAULT\<close> is never a
  section and cannot be added; \<open>set\<close> writes to the defaults when the section name is
  empty or \<open>DEFAULT\<close>, and lower-cases the option name.
\<close>

record config =
  defaults :: "(string \<times> string) list"
  sections :: "(string \<times> (string \<times> string) list) list"

definition empty_config :: config where
  "empty_config = \<lparr>defaults = [], sections = []\<rparr>"

definition has_section :: "config \<Rightarrow> string \<Rightarrow> bool" where
  "has_section cfg section = (map_of (sections cfg) section \<noteq> None)"

definition add_section :: "config \<Rightarrow> string \<Rightarrow> error + config" where
  "add_section cfg section =
     (if section = ''DEFAULT'' then Inl ValueError
      else if has_section cfg section then Inl DuplicateSectionError
      else Inr (cfg\<lparr>sections := sections cfg @ [(section, [])]\<rparr>))"

definition config_set :: "config \<Rightarrow> string \<Rightarrow> string \<Rightarrow> string \<Rightarrow> error + config" where
  "config_set cfg section option val =
     (if section = [] \<or> section = ''DEFAULT''
      then Inr (cfg\<lparr>defaults := AList.update (lower option) val (defaults cfg)\<rparr>)
      else (case map_of (sections cfg) section of
              None \<Rightarrow> Inl NoSectionError
            | Some sectdict \<Rightarrow>
                Inr (cfg\<lparr>sections :=
                       AList.update section (AList.update (lower option) val sectdict)
                         (sections cfg)\<rparr>)))"

type_synonym path = string

type_synonym ini_files = "path \<Rightarrow> config option"

definition config_read :: "ini_files \<Rightarrow> path \<Rightarrow> config" where
  "config_read ini path = (case ini path of None \<Rightarrow> empty_config | Some cfg \<Rightarrow> cfg)"

text \<open>A failing step raises; the later steps do not run.\<close>

definition then_do :: "error + 'a \<Rightarrow> ('a \<Rightarrow> error + 'b) \<Rightarrow> error + 'b" where
  "then_do r f = (case r of Inl e \<Rightarrow> Inl e | Inr x \<Rightarrow> f x)"

definition write_aws_creds ::
  "ini_files \<Rightarrow> path \<Rightarrow> string \<Rightarrow> string \<Rightarrow> string \<Rightarrow> string \<Rightarrow> string \<Rightarrow> string
     \<Rightarrow> error + ini_files" where
  "write_aws_creds ini aws_config_file profile access_key secret_key token region output =
     then_do (let config = config_read ini aws_config_file
              in if \<not> has_section config profile then add_section config profile
                 else Inr config) (\<lambda>c0.
     then_do (config_set c0 profile ''output'' output) (\<lambda>c1.
     then_do (config_set c1 profile ''region'' region) (\<lambda>c2.
     then_do (config_set c2 profile ''aws_access_key_id'' access_key) (\<lambda>c3.
     then_do (config_set c3 profile ''aws_secret_access_key'' secret_key) (\<lambda>c4.
     then_do (config_set c4 profile ''aws_session_token'' token) (\<lambda>c5.
     Inr (ini(aws_config_file \<mapsto> c5))))))))"

section \<open>The run: arguments, the outside world and the state\<close>

text \<open>
  \<open>args\<close> is the parsed command line. \<open>world\<close> holds what the script reads from outside
  and the library calls it makes: the home directory, the \<open>OKTA_USERNAME\<close> variable, the
  password typed at a prompt, the identity provider's answers to a GET (URL, cookies)
  and to a POST (URL, parameters, the session's cookies), the HTML parser, the assertion
  decoder, the token service, the clock (microseconds) and the umask. \<open>state\<close> is what a
  run changes: the files, the credentials files and the lines printed.
\<close>

record args =
  username :: "string option"
  profile :: "string option"
  verbose :: bool
  sid :: "string option"

record response =
  url :: string
  body :: string
  cookies :: "(string \<times> string) list"

record credentials =
  AccessKeyId :: string
  SecretAccessKey :: string
  SessionToken :: string
  Expiration :: int

record world =
  home :: string
  okta_username :: "string option"
  getpass :: "string \<Rightarrow> string"
  http_get :: "string \<Rightarrow> (string \<times> string) list \<Rightarrow> response"
  http_post :: "string \<Rightarrow> (string \<times> string) list \<Rightarrow> (string \<times> string) list \<Rightarrow> response"
  html_parser :: "string \<Rightarrow> element list"
  decode_assertion :: "string \<Rightarrow> xml option"
  assume_role_with_saml :: "string \<Rightarrow> string \<Rightarrow> string \<Rightarrow> error + credentials"
  now :: int
  umask :: "32 word"

record state =
  files :: filesystem
  ini :: ini_files
  stdout :: "string list"

type_synonym 'a step = "state \<Rightarrow> (outcome + 'a) \<times> state"

definition print :: "string \<Rightarrow> state \<Rightarrow> state" where
  "print line st = st\<lparr>stdout := stdout st @ [line]\<rparr>"

text \<open>Sequencing: a step that exits or raises ends the run with the state it left.\<close>

definition bnd :: "'a step \<Rightarrow> ('a \<Rightarrow> 'b step) \<Rightarrow> 'b step" where
  "bnd m f st = (case m st of (Inl oc, st') \<Rightarrow> (Inl oc, st') | (Inr x, st') \<Rightarrow> f x st')"

definition raise_from :: "error + 'a \<Rightarrow> 'a step" where
  "raise_from r st = (case r of Inl e \<Rightarrow> (Inl (Uncaught e), st) | Inr x \<Rightarrow> (Inr x, st))"

section \<open>\<open>get_user_creds\<close>\<close>

text \<open>
  The user name comes from \<open>--username\<close>, else from \<open>OKTA_USERNAME\<close>; with neither, the
  script prints \<open>Username: \<close> and calls \<open>raw_input\<close>, a name Python 3 does not define.
  An empty password prints a message and exits with status 1.
\<close>

definition get_user_creds :: "args \<Rightarrow> world \<Rightarrow> (string \<times> string) step" where
  "get_user_creds a w st =
     (case (case username a of Some u \<Rightarrow> Some u | None \<Rightarrow> okta_username w) of
        None \<Rightarrow> (Inl (Uncaught NameError), print ''Username: '' st)
      | Some u \<Rightarrow>
          (let passwd_prompt = ''Password for '' @ u @ '': '';
               password = getpass w passwd_prompt
           in if length password = 0
              then (Inl (SystemExit 1), print ''Password must be provided'' st)
              else (Inr (u, password), st)))"

section \<open>\<open>okta_password_login\<close> and \<open>okta_cookie_login\<close>\<close>

text \<open>
  Lines 61--96: get the login page (following the redirects), build the payload and the
  submission URL from it, and post the form in the same session.
\<close>

definition submit_login_form :: "world \<Rightarrow> string \<Rightarrow> string \<Rightarrow> string \<Rightarrow> response" where
  "submit_login_form w user password idp_entry_url =
     (let formresponse = http_get w idp_entry_url [];
          formsoup = html_parser w (body formresponse);
          payload = login_payload user password formsoup;
          idpauthformsubmiturl = form_submit_url idp_entry_url (url formresponse) formsoup
      in http_post w idpauthformsubmiturl payload (cookies formresponse))"

text \<open>
  Lines 97--105: the failure marker in the answer prints a message and exits with status
  1; otherwise the answer must carry the \<open>sid\<close> cookie.
\<close>

definition okta_password_login ::
  "world \<Rightarrow> string \<Rightarrow> string \<Rightarrow> string \<Rightarrow> (response \<times> string) step" where
  "okta_password_login w user password idp_entry_url st =
     (let resp = submit_login_form w user password idp_entry_url
      in if str_in ''Sign in failed!'' (body resp)
         then (Inl (SystemExit 1), print ''Sign in failed!'' st)
         else (case map_of (cookies resp) ''sid'' of
                 None \<Rightarrow> (Inl (Uncaught KeyError), st)
               | Some new_sid \<Rightarrow> (Inr (resp, new_sid), st)))"

definition okta_cookie_login :: "world \<Rightarrow> string \<Rightarrow> string \<Rightarrow> response" where
  "okta_cookie_login w s idp_entry_url = http_get w idp_entry_url [(''sid'', s)]"

section \<open>\<open>main\<close>\<close>

definition region :: string where
  "region = ''us-west-2''"

definition output_format :: string where
  "output_format = ''json''"

definition aws_config_file :: "world \<Rightarrow> string" where
  "aws_config_file w = home w @ ''/.aws/credentials''"

definition idp_entry_url :: string where
  "idp_entry_url = ''https://nimbusscale.okta.com/home/amazon_aws/0oa1zacnfpCCu09Uc0x7/272''"

definition cache_sid :: bool where
  "cache_sid = True"

definition sid_cache_file :: "world \<Rightarrow> string" where
  "sid_cache_file w = home w @ ''/.okta_sid''"

text \<open>
  Lines 262--270, and again lines 273--281: ask for the credentials, log in with them,
  look for the assertion in the answer, then write the new session identifier to the
  cache file.
\<close>

definition password_login :: "args \<Rightarrow> world \<Rightarrow> string option step" where
  "password_login a w =
     bnd (get_user_creds a w) (\<lambda>user_creds.
     bnd (okta_password_login w (fst user_creds) (snd user_creds) idp_entry_url) (\<lambda>password_response.
     (\<lambda>st. let assertion = get_saml_assertion (html_parser w (body (fst password_response)))
           in if cache_sid
              then (case write_sid_file (umask w) (files st) (sid_cache_file w) (snd password_response) of
                      Inl e \<Rightarrow> (Inl (Uncaught e), st)
                    | Inr fs \<Rightarrow> (Inr assertion, st\<lparr>files := fs\<rparr>))
              else (Inr assertion, st))))"

text \<open>
  Lines 249--281: the session identifier of \<open>--sid\<close>, else of the cache file; with one, a
  cookie login, and a password login when its answer holds no assertion; with none, a
  password login.
\<close>

definition available_sid :: "args \<Rightarrow> world \<Rightarrow> state \<Rightarrow> string option" where
  "available_sid a w st =
     (if sid a = None \<and> cache_sid then get_sid_from_file (files st) (sid_cache_file w)
      else sid a)"

definition login :: "args \<Rightarrow> world \<Rightarrow> string option step" where
  "login a w st =
     (case available_sid a w st of
        Some s \<Rightarrow>
          (let cookie_response = okta_cookie_login w s idp_entry_url;
               assertion = get_saml_assertion (html_parser w (body cookie_response))
           in if assertion = None then password_login a w st
              else (Inr assertion, st))
      | None \<Rightarrow> password_login a w st)"

text \<open>
  Line 310: \<open>math.ceil(valid_duration / timedelta(minutes=1))\<close>. Dividing a duration by
  a duration is Python's true division of their microsecond counts: the result is the
  double nearest to the exact quotient, a tie going to the even mantissa. The model
  keeps that double as a rational: \<open>binade q\<close> is the exponent of the power of two at or
  below \<open>\<bar>q\<bar>\<close>, and the quotient is rounded to 53 significant bits. The overflow and
  subnormal ranges are left out; no quotient of two durations reaches them.
\<close>

function bit_length :: "int \<Rightarrow> nat" where
  "bit_length n = (if n \<le> 0 then 0 else Suc (bit_length (n div 2)))"
  by pat_completeness auto
termination
  by (relation "measure nat") auto

definition binade :: "rat \<Rightarrow> int" where
  "binade q =
     (let (a, b) = quotient_of \<bar>q\<bar>;
          k = int (bit_length a) - int (bit_length b)
      in if \<bar>q\<bar> < 2 powi k then k - 1 else k)"

definition round_half_even :: "rat \<Rightarrow> int" where
  "round_half_even x =
     (let f = \<lfloor>x\<rfloor>; r = x - of_int f
      in if r < 1 / 2 then f
         else if 1 / 2 < r then f + 1
         else if even f then f else f + 1)"

definition to_double :: "rat \<Rightarrow> rat" where
  "to_double q =
     (if q = 0 then 0
      else let e = binade q - 52
           in of_int (round_half_even (q / 2 powi e)) * 2 powi e)"

definition true_divide :: "int \<Rightarrow> int \<Rightarrow> rat" where
  "true_divide a b = to_double (rat_of_int a / rat_of_int b)"

definition valid_minutes :: "int \<Rightarrow> int" where
  "valid_minutes valid_duration = \<lceil>true_divide valid_duration 60000000\<rceil>"

text \<open>\<open>str\<close> of an integer, as \<open>format\<close> writes it: decimal digits, a minus sign first.\<close>

fun digits_of :: "nat \<Rightarrow> string \<Rightarrow> string" where
  "digits_of n acc =
     (let acc' = (''0123456789'' ! (n mod 10)) # acc
      in if n div 10 = 0 then acc' else digits_of (n div 10) acc')"

definition str_of_int :: "int \<Rightarrow> string" where
  "str_of_int i = (if i < 0 then CHR ''-'' # digits_of (nat (- i)) [] else digits_of (nat i) [])"

definition cred_details :: "string \<Rightarrow> int \<Rightarrow> string" where
  "cred_details profile_name minutes =
     ''Credentials for the profile '' @ profile_name @ '' have been set. ''
       @ ''They will expire in '' @ str_of_int minutes @ '' minutes.''"

text \<open>\<open>get_sts_token\<close>: one call of the token service; its failure is not caught.\<close>

definition get_sts_token :: "world \<Rightarrow> string \<Rightarrow> string \<Rightarrow> string \<Rightarrow> error + credentials" where
  "get_sts_token w role_arn principal_arn saml_assertion =
     assume_role_with_saml w role_arn principal_arn saml_assertion"

text \<open>Lines 283--314: what \<open>main\<close> does once the login has returned.\<close>

definition finish :: "args \<Rightarrow> world \<Rightarrow> string option \<Rightarrow> unit step" where
  "finish a w assertion =
     (case assertion of
        None \<Rightarrow> (\<lambda>st. (Inl (SystemExit 1), print ''No valid SAML assertion retrieved!'' st))
      | Some saml \<Rightarrow>
          bnd (raise_from (get_arns_from_assertion (decode_assertion w) saml)) (\<lambda>saml_dict.
          bnd (raise_from (get_sts_token w (RoleArn saml_dict) (PrincipalArn saml_dict)
                 (SAMLAssertion saml_dict))) (\<lambda>aws_creds.
          bnd (raise_from
                 (case profile a of
                    Some p \<Rightarrow> Inr p
                  | None \<Rightarrow>
                      (case split (CHR ''/'') (RoleArn saml_dict) of
                         x # y # rest \<Rightarrow> Inr y
                       | _ \<Rightarrow> Inl IndexError))) (\<lambda>profile_name.
          bnd (\<lambda>st. case write_aws_creds (ini st) (aws_config_file w) profile_name
                            (AccessKeyId aws_creds) (SecretAccessKey aws_creds)
                            (SessionToken aws_creds) region output_format of
                       Inl e \<Rightarrow> (Inl (Uncaught e), st)
                     | Inr files' \<Rightarrow> (Inr (), st\<lparr>ini := files'\<rparr>)) (\<lambda>u.
          (\<lambda>st. if verbose a
                then (Inr (), print (cred_details profile_name
                                       (valid_minutes (Expiration aws_creds - now w))) st)
                else (Inr (), st)))))))"

definition main :: "args \<Rightarrow> world \<Rightarrow> unit step" where
  "main a w = bnd (login a w) (finish a w)"

text \<open>
  The process: \<open>main()\<close> returning is exit status 0, \<open>sys.exit(n)\<close> is exit status \<open>n\<close>,
  and an uncaught exception is kept apart as a fault of its own.
\<close>

definition run :: "args \<Rightarrow> world \<Rightarrow> state \<Rightarrow> outcome \<times> state" where
  "run a w st =
     (case main a w st of
        (Inl oc, st') \<Rightarrow> (oc, st')
      | (Inr u, st') \<Rightarrow> (SystemExit 0, st'))"

section \<open>Notions used to state the properties\<close>

text \<open>
  What the payload loop reads off one input tag: the key it assigns to, and the value it
  assigns for a given user name and password.
\<close>

definition field_name :: "element \<Rightarrow> string" where
  "field_name t = get_attr_default t ''name'' ''''"

definition field_fill :: "string \<Rightarrow> string \<Rightarrow> element \<Rightarrow> string" where
  "field_fill u p t =
     (if str_in ''user'' (lower (field_name t)) then u
      else if str_in ''pass'' (lower (field_name t)) then p
      else get_attr_default t ''value'' '''')"

text \<open>Pages used as concrete inputs.\<close>

definition input_tag :: "string \<Rightarrow> string \<Rightarrow> element" where
  "input_tag nm v = \<lparr>tag_name = ''input'', attrs = [(''name'', nm), (''value'', v)]\<rparr>"

definition form_tag :: "string \<Rightarrow> element" where
  "form_tag action = \<lparr>tag_name = ''form'', attrs = [(''action'', action)]\<rparr>"

definition login_form_page :: "element list" where
  "login_form_page =
     [form_tag ''/auth/submit'', input_tag ''username'' '''', input_tag ''password'' '''',
      input_tag ''csrf_token'' ''abc123'']"

definition user_password_page :: "element list" where
  "user_password_page = [input_tag ''user_password'' '''']"


text \<open>
  File systems used as concrete inputs: a home directory whose only file is the session
  cache, with mode \<open>0o644\<close> (420).
\<close>

definition cache_path :: string where
  "cache_path = ''/home/u/.okta_sid''"

definition cache_fs :: "string \<Rightarrow> filesystem" where
  "cache_fs c = Map.empty(cache_path \<mapsto> File c 420)"

text \<open>
  The texts the loops of \<open>get_arns_from_assertion\<close> visit, in the order they visit them:
  the values of the role attributes, in document order.
\<close>

definition role_values :: "xml \<Rightarrow> string option list" where
  "role_values root_elem =
     concat (map (\<lambda>a. map elem_text (iter urn_attributevalue a))
               (filter (\<lambda>a. map_of (attrib a) ''Name'' = Some role_url)
                  (iter urn_attribute root_elem)))"

text \<open>
  Following the specification's words (``read its first value''): the first value of the
  role attribute.
\<close>

definition spec_first_role_value :: "xml \<Rightarrow> string option option" where
  "spec_first_role_value root_elem =
     (case role_values root_elem of [] \<Rightarrow> None | v # vs \<Rightarrow> Some v)"

text \<open>
  Documents used as concrete inputs: a response whose assertion holds one role attribute
  with the given values.
\<close>

definition saml_doc :: "string list \<Rightarrow> xml" where
  "saml_doc vs =
     Element ''{urn:oasis:names:tc:SAML:2.0:protocol}Response'' [] None
       [Element (urn @ ''Assertion'') [] None
          [Element (urn @ ''AttributeStatement'') [] None
             [Element urn_attribute [(''Name'', ''https://aws.amazon.com/SAML/Attributes/RoleSessionName'')]
                None [Element urn_attributevalue [] (Some ''alice'') []],
              Element urn_attribute [(''Name'', role_url)] None
                (map (\<lambda>v. Element urn_attributevalue [] (Some v) []) vs)]]]"

definition role_xy :: string where
  "role_xy = ''arn:aws:iam::111:saml-provider/X,arn:aws:iam::111:role/Y''"

definition role_xz :: string where
  "role_xz = ''arn:aws:iam::111:saml-provider/X,arn:aws:iam::111:role/Z''"





text \<open>
  A credentials file used as concrete input: a \<open>default\<close> profile, and a profile \<open>Y\<close>
  that already holds stale keys and a field of its own.
\<close>

definition creds_path :: string where
  "creds_path = ''/home/u/.aws/credentials''"

definition sample_config :: config where
  "sample_config =
     \<lparr>defaults = [],
      sections =
        [(''default'', [(''aws_access_key_id'', ''AKIADEFAULT''), (''region'', ''eu-west-1'')]),
         (''Y'', [(''aws_access_key_id'', ''AKIAOLD''), (''cli_pager'', ''less'')])]\<rparr>"

definition sample_ini :: ini_files where
  "sample_ini = Map.empty(creds_path \<mapsto> sample_config)"

text \<open>
  Notions for the run, read off its inputs. The password path runs when no session
  identifier is available, or when the cookie login's answer holds no assertion. On
  that path: the user name that is known without asking, the password typed at the
  prompt for it, and the identity provider's answer to the login form posted with them.
\<close>

definition cookie_page :: "world \<Rightarrow> string \<Rightarrow> element list" where
  "cookie_page w s = html_parser w (body (okta_cookie_login w s idp_entry_url))"

definition asks_password :: "args \<Rightarrow> world \<Rightarrow> state \<Rightarrow> bool" where
  "asks_password a w st =
     (case available_sid a w st of
        None \<Rightarrow> True
      | Some s \<Rightarrow> get_saml_assertion (cookie_page w s) = None)"







text \<open>
  A world used as concrete input. The identity provider answers a GET that carries a
  cookie with a page that holds no assertion (the session has expired), a GET without
  cookies with the login form, and the posted form with a page that holds the assertion
  and a fresh \<open>sid\<close> cookie; the token service grants credentials that expire 90 seconds
  after the clock's reading. The state holds an expired 25-character identifier in the
  cache file and the credentials file of above.
\<close>

definition sample_world :: world where
  "sample_world =
     \<lparr>home = ''/home/u'',
      okta_username = Some ''alice'',
      getpass = (\<lambda>prompt. ''s3cret''),
      http_get = (\<lambda>u jar. if jar = []
                           then \<lparr>url = ''https://nimbusscale.okta.com/login/login.htm'',
                                 body = ''login form'', cookies = []\<rparr>
                           else \<lparr>url = u, body = ''session expired'', cookies = []\<rparr>),
      http_post = (\<lambda>u params jar.
                     \<lparr>url = u, body = ''signed in'',
                      cookies = [(''sid'', ''BBBBBBBBBBBBBBBBBBBBBBBBB'')]\<rparr>),
      html_parser = (\<lambda>page. if page = ''login form'' \<or> page = ''session expired''
                             then login_form_page
                             else if page = ''signed in''
                             then [input_tag ''SAMLResponse'' ''PHNhbWw+'']
                             else []),
      decode_assertion = map_of [(''PHNhbWw+'', saml_doc [role_xy])],
      assume_role_with_saml = (\<lambda>role principal assertion.
                                 Inr \<lparr>AccessKeyId = ''AKIA1'', SecretAccessKey = ''secret1'',
                                      SessionToken = ''token1'', Expiration = 90000000\<rparr>),
      now = 0,
      umask = 18\<rparr>"

definition sample_args :: args where
  "sample_args = \<lparr>username = None, profile = None, verbose = True, sid = None\<rparr>"

definition sample_state :: state where
  "sample_state =
     \<lparr>files = cache_fs ''AAAAAAAAAAAAAAAAAAAAAAAAA'', ini = sample_ini, stdout = []\<rparr>"






section \<open>The login form payload: properties\<close>

lemma map_of_payload_step:
  "map_of (payload_step u p al t) = (map_of al)(field_name t \<mapsto> field_fill u p t)"
  by (simp add: payload_step_def Let_def update_conv' field_fill_def field_name_def)

text \<open>
  After the loop, a key holds what the last tag of that name assigned; a key no tag
  names holds what it held before.
\<close>

lemma map_of_payload_foldl:
  "map_of (foldl (payload_step u p) acc ts) n =
     (if filter (\<lambda>t. field_name t = n) ts = [] then map_of acc n
      else Some (field_fill u p (last (filter (\<lambda>t. field_name t = n) ts))))"
proof (induction ts rule: rev_induct)
  case Nil
  show ?case by simp
next
  case (snoc t ts)
  show ?case
  proof (cases "field_name t = n")
    case True
    then show ?thesis by (simp add: map_of_payload_step)
  next
    case False
    then show ?thesis using snoc by (simp add: map_of_payload_step)
  qed
qed

lemma last_filter_name:
  assumes "t \<in> set ts" and "field_name t = n"
  shows "filter (\<lambda>t'. field_name t' = n) ts \<noteq> []"
    and "field_name (last (filter (\<lambda>t'. field_name t' = n) ts)) = n"
proof -
  let ?same = "filter (\<lambda>t'. field_name t' = n) ts"
  from assms have "t \<in> set ?same" by simp
  then show ne: "?same \<noteq> []" by (metis empty_iff empty_set)
  from last_in_set [OF ne] show "field_name (last ?same) = n" by simp
qed

lemma login_payload_lookup:
  assumes "t \<in> set (find_all_re ''INPUT'' ''input'' soup)" and "field_name t = n"
  shows "map_of (login_payload u p soup) n =
           Some (field_fill u p
                   (last (filter (\<lambda>t'. field_name t' = n) (find_all_re ''INPUT'' ''input'' soup))))"
  unfolding login_payload_def map_of_payload_foldl
  using last_filter_name(1) [OF assms] by simp

lemma login_payload_keys:
  "fst ` set (login_payload u p soup) = field_name ` set (find_all_re ''INPUT'' ''input'' soup)"
proof -
  have "dom (map_of (foldl (payload_step u p) acc ts)) = dom (map_of acc) \<union> field_name ` set ts"
    for acc ts
    by (induction ts arbitrary: acc) (auto simp: map_of_payload_step)
  from this [of "[]"] show ?thesis
    by (simp add: login_payload_def dom_map_of_conv_image_fst)
qed

text \<open>
  C1, as the code has it. The payload's keys are the names of the page's input tags
  (a tag with no \<open>name\<close> counts as named by the empty string). For every input tag, the
  payload holds under its name: the user name when the lower-cased name contains
  \<open>user\<close>; else the password when it contains \<open>pass\<close>; else the \<open>value\<close> of the last
  input tag of that name (the empty string when that tag has no \<open>value\<close>). A name that
  contains both \<open>user\<close> and \<open>pass\<close> gets the user name, and where several tags share a
  name that is neither, the last one's value stands.
\<close>

theorem login_payload_fields:
  assumes "t \<in> set (find_all_re ''INPUT'' ''input'' soup)" and "n = field_name t"
  shows "map_of (login_payload u p soup) n =
           Some (if str_in ''user'' (lower n) then u
                 else if str_in ''pass'' (lower n) then p
                 else get_attr_default
                        (last (filter (\<lambda>t'. field_name t' = n)
                           (find_all_re ''INPUT'' ''input'' soup))) ''value'' '''')
         \<and> fst ` set (login_payload u p soup)
             = field_name ` set (find_all_re ''INPUT'' ''input'' soup)"
proof -
  from assms have fn: "field_name t = n" by simp
  have "map_of (login_payload u p soup) n =
          Some (field_fill u p
                  (last (filter (\<lambda>t'. field_name t' = n) (find_all_re ''INPUT'' ''input'' soup))))"
    by (rule login_payload_lookup [OF assms(1) fn])
  moreover have "field_name (last (filter (\<lambda>t'. field_name t' = n)
                    (find_all_re ''INPUT'' ''input'' soup))) = n"
    by (rule last_filter_name(2) [OF assms(1) fn])
  ultimately show ?thesis
    by (simp add: field_fill_def login_payload_keys)
qed

text \<open>
  The login form of the specification's example: \<open>username\<close> and \<open>password\<close> get the
  credentials, \<open>csrf_token\<close> keeps \<open>abc123\<close>.
\<close>

theorem login_payload_fields_witness:
  "map_of (login_payload ''alice'' ''s3cret'' login_form_page) ''username'' = Some ''alice''
   \<and> map_of (login_payload ''alice'' ''s3cret'' login_form_page) ''password'' = Some ''s3cret''
   \<and> map_of (login_payload ''alice'' ''s3cret'' login_form_page) ''csrf_token'' = Some ''abc123''"
proof -
  let ?ts = "find_all_re ''INPUT'' ''input'' login_form_page"
  have ts: "?ts = [input_tag ''username'' '''', input_tag ''password'' '''',
                   input_tag ''csrf_token'' ''abc123'']"
    by code_simp
  have m1: "input_tag ''username'' '''' \<in> set ?ts"
    and m2: "input_tag ''password'' '''' \<in> set ?ts"
    and m3: "input_tag ''csrf_token'' ''abc123'' \<in> set ?ts"
    unfolding ts by simp_all
  have n1: "''username'' = field_name (input_tag ''username'' '''')"
    and n2: "''password'' = field_name (input_tag ''password'' '''')"
    and n3: "''csrf_token'' = field_name (input_tag ''csrf_token'' ''abc123'')"
    by (simp_all add: field_name_def input_tag_def get_attr_default_def)
  have c1: "str_in ''user'' (lower ''username'')"
    and c2: "\<not> str_in ''user'' (lower ''password'')" "str_in ''pass'' (lower ''password'')"
    and c3: "\<not> str_in ''user'' (lower ''csrf_token'')" "\<not> str_in ''pass'' (lower ''csrf_token'')"
    by code_simp+
  have l3: "get_attr_default (last (filter (\<lambda>t'. field_name t' = ''csrf_token'') ?ts)) ''value'' ''''
              = ''abc123''"
    unfolding ts by (simp add: field_name_def input_tag_def get_attr_default_def)
  from login_payload_fields [OF m1 n1, of "''alice''" "''s3cret''"] c1
  have "map_of (login_payload ''alice'' ''s3cret'' login_form_page) ''username'' = Some ''alice''"
    by simp
  moreover from login_payload_fields [OF m2 n2, of "''alice''" "''s3cret''"] c2
  have "map_of (login_payload ''alice'' ''s3cret'' login_form_page) ''password'' = Some ''s3cret''"
    by simp
  moreover from login_payload_fields [OF m3 n3, of "''alice''" "''s3cret''"] c3 l3
  have "map_of (login_payload ''alice'' ''s3cret'' login_form_page) ''csrf_token'' = Some ''abc123''"
    by simp
  ultimately show ?thesis by simp
qed

text \<open>
  C1 as stated fails: \<open>user_password\<close> contains \<open>pass\<close>, and the payload does not hold the
  password under it.
\<close>

theorem login_payload_pass_counterexample:
  "str_in ''pass'' (lower (field_name (input_tag ''user_password'' '''')))
   \<and> input_tag ''user_password'' '''' \<in> set (find_all_re ''INPUT'' ''input'' user_password_page)
   \<and> map_of (login_payload ''alice'' ''s3cret'' user_password_page) ''user_password''
       \<noteq> Some ''s3cret''"
  by code_simp

text \<open>
  C10. An input tag whose lower-cased name contains both \<open>user\<close> and \<open>pass\<close> is given
  the user name, whatever the password is.
\<close>

theorem user_before_pass:
  assumes "t \<in> set (find_all_re ''INPUT'' ''input'' soup)"
    and "str_in ''user'' (lower (field_name t))" and "str_in ''pass'' (lower (field_name t))"
  shows "map_of (login_payload u p soup) (field_name t) = Some u"
proof -
  let ?l = "last (filter (\<lambda>t'. field_name t' = field_name t) (find_all_re ''INPUT'' ''input'' soup))"
  have "field_name ?l = field_name t"
    by (rule last_filter_name(2) [OF assms(1) refl])
  with assms(2) have "field_fill u p ?l = u"
    by (simp add: field_fill_def)
  with login_payload_lookup [OF assms(1) refl, of u p] show ?thesis by simp
qed

theorem user_before_pass_witness:
  "map_of (login_payload ''alice'' ''s3cret'' user_password_page) ''user_password'' = Some ''alice''"
proof -
  have m: "input_tag ''user_password'' '''' \<in> set (find_all_re ''INPUT'' ''input'' user_password_page)"
    by code_simp
  have n: "field_name (input_tag ''user_password'' '''') = ''user_password''"
    by (simp add: field_name_def input_tag_def get_attr_default_def)
  have c: "str_in ''user'' (lower ''user_password'')" "str_in ''pass'' (lower ''user_password'')"
    by code_simp+
  from user_before_pass [OF m, of "''alice''" "''s3cret''"] c show ?thesis
    unfolding n by simp
qed

section \<open>The form submission URL: properties\<close>





section \<open>The session cache file: properties\<close>



text \<open>
  Writing the cache. Where the path names nothing, the file is created with the
  identifier as its content and mode \<open>0o600\<close> less the umask. Where it names a file, the
  identifier replaces the first characters of the old content, the rest of a longer old
  content stays, and the mode stays.
\<close>

lemma write_sid_file_absent:
  "fs path = None \<Longrightarrow>
     write_sid_file um fs path s = Inr (fs(path \<mapsto> File s (384 AND NOT um)))"
  by (simp add: write_sid_file_def)

lemma write_sid_file_existing:
  "fs path = Some (File old m) \<Longrightarrow>
     write_sid_file um fs path s = Inr (fs(path \<mapsto> File (s @ drop (length s) old) m))"
  by (simp add: write_sid_file_def)

lemma write_sid_file_other_paths:
  "write_sid_file um fs path s = Inr fs' \<Longrightarrow> q \<noteq> path \<Longrightarrow> fs' q = fs q"
  by (auto simp: write_sid_file_def split: option.splits entry.splits)

text \<open>
  C2 at a cache file that holds 26 characters with mode \<open>0o644\<close> (umask \<open>0o022\<close>, 18):
  after writing a 25-character identifier the file holds the identifier followed by the
  old last character, still with mode \<open>0o644\<close>, and reading the cache gives nothing.
\<close>

theorem write_sid_file_keeps_tail:
  "map_sum id (\<lambda>fs. (fs cache_path, get_sid_from_file fs cache_path))
     (write_sid_file 18 (cache_fs ''AAAAAAAAAAAAAAAAAAAAAAAAAX'') cache_path
        ''BBBBBBBBBBBBBBBBBBBBBBBBB'')
   = Inr (Some (File ''BBBBBBBBBBBBBBBBBBBBBBBBBX'' 420), None)"
  by (simp add: write_sid_file_def cache_fs_def get_sid_from_file_def isfile_def)

section \<open>Decoding the assertion: properties\<close>

lemma arns_inner_eq:
  "arns_inner arns a =
     (if iter urn_attributevalue a = [] then arns
      else Some (last (map elem_text (iter urn_attributevalue a))))"
proof -
  have "foldl (\<lambda>acc v. Some (elem_text v)) arns vs =
          (if vs = [] then arns else Some (last (map elem_text vs)))" for vs
    by (induction vs rule: rev_induct) simp_all
  then show ?thesis by (simp add: arns_inner_def)
qed

lemma arns_loop_foldl:
  "foldl (\<lambda>arns a. if map_of (attrib a) ''Name'' = Some role_url
                     then arns_inner arns a else arns) acc as =
     (let vs = concat (map (\<lambda>a. map elem_text (iter urn_attributevalue a))
                 (filter (\<lambda>a. map_of (attrib a) ''Name'' = Some role_url) as))
      in if vs = [] then acc else Some (last vs))"
proof (induction as rule: rev_induct)
  case Nil
  show ?case by simp
next
  case (snoc a as)
  show ?case
    by (auto simp: snoc arns_inner_eq Let_def)
qed

text \<open>After the loops \<open>arns\<close> is the last value visited, and unbound when there was none.\<close>

lemma arns_loop_eq:
  "arns_loop t = (if role_values t = [] then None else Some (last (role_values t)))"
  by (simp add: arns_loop_def role_values_def arns_loop_foldl Let_def)

text \<open>
  C4, as the code has it. For an assertion that decodes to a document with at least one
  role attribute value, the value read is the last one in document order (the first one
  when there is only one). When its text has at least two comma-separated pieces, the
  result holds the first piece as \<open>PrincipalArn\<close>, the second as \<open>RoleArn\<close>, and the
  assertion itself, unchanged, as \<open>SAMLAssertion\<close>.
\<close>

theorem get_arns_from_last_value:
  assumes "decode assertion = Some root_elem"
    and "role_values root_elem \<noteq> []"
    and "last (role_values root_elem) = Some arns"
    and "split (CHR '','') arns = p # r # rest"
  shows "get_arns_from_assertion decode assertion
           = Inr \<lparr>RoleArn = r, PrincipalArn = p, SAMLAssertion = assertion\<rparr>"
  using assms by (simp add: get_arns_from_assertion_def arns_loop_eq)

text \<open>The specification's fixture: one role value, \<open>...saml-provider/X,...role/Y\<close>.\<close>

theorem get_arns_from_last_value_witness:
  "get_arns_from_assertion (map_of [(''PHNhbWw+'', saml_doc [role_xy])]) ''PHNhbWw+''
     = Inr \<lparr>RoleArn = ''arn:aws:iam::111:role/Y'',
             PrincipalArn = ''arn:aws:iam::111:saml-provider/X'',
             SAMLAssertion = ''PHNhbWw+''\<rparr>"
proof -
  have d: "map_of [(''PHNhbWw+'', saml_doc [role_xy])] ''PHNhbWw+'' = Some (saml_doc [role_xy])"
    by simp
  have rv: "role_values (saml_doc [role_xy]) = [Some role_xy]"
    by code_simp
  have ne: "role_values (saml_doc [role_xy]) \<noteq> []"
    and l: "last (role_values (saml_doc [role_xy])) = Some role_xy"
    unfolding rv by simp_all
  have sp: "split (CHR '','') role_xy
              = ''arn:aws:iam::111:saml-provider/X'' # ''arn:aws:iam::111:role/Y'' # []"
    by code_simp
  show ?thesis
    by (rule get_arns_from_last_value
               [where decode = "map_of [(''PHNhbWw+'', saml_doc [role_xy])]"
                  and assertion = "''PHNhbWw+''", OF d ne l sp])
qed

text \<open>
  C4 as stated fails where the role attribute has two values: the first value is
  \<open>...saml-provider/X,...role/Y\<close>, and the result's \<open>RoleArn\<close> is \<open>...role/Z\<close>, the second
  piece of the second value.
\<close>

theorem get_arns_first_value_counterexample:
  "spec_first_role_value (saml_doc [role_xy, role_xz]) = Some (Some role_xy)
   \<and> split (CHR '','') role_xy
       = [''arn:aws:iam::111:saml-provider/X'', ''arn:aws:iam::111:role/Y'']
   \<and> get_arns_from_assertion (map_of [(''PHNhbWw+'', saml_doc [role_xy, role_xz])]) ''PHNhbWw+''
       = Inr \<lparr>RoleArn = ''arn:aws:iam::111:role/Z'',
               PrincipalArn = ''arn:aws:iam::111:saml-provider/X'',
               SAMLAssertion = ''PHNhbWw+''\<rparr>"
  by code_simp

section \<open>The validity summary: properties\<close>

declare bit_length.simps [simp del]

text \<open>
  The double of a quotient. \<open>bit_length\<close> counts binary digits, so \<open>binade q\<close> is the
  exponent with \<open>2 powi binade q \<le> \<bar>q\<bar> < 2 powi (binade q + 1)\<close>; rounding to 53 bits
  moves a quotient by at most half a unit in the last place, and leaves whole numbers
  below \<open>2^53\<close> as they are.
\<close>

lemma bit_length_bounds:
  "0 < n \<Longrightarrow> 2 ^ (bit_length n - 1) \<le> n \<and> n < 2 ^ bit_length n \<and> 0 < bit_length n"
proof (induction n rule: bit_length.induct)
  case (1 n)
  show ?case
  proof (cases "n div 2 \<le> 0")
    case True
    with 1 have "n = 1" by auto
    then show ?thesis by (simp add: bit_length.simps)
  next
    case False
    with 1 have ih: "2 ^ (bit_length (n div 2) - 1) \<le> n div 2"
      "n div 2 < 2 ^ bit_length (n div 2)" "0 < bit_length (n div 2)"
      by auto
    from 1 have bl: "bit_length n = Suc (bit_length (n div 2))"
      by (simp add: bit_length.simps [of n])
    from ih(3) obtain m where m: "bit_length (n div 2) = Suc m"
      by (cases "bit_length (n div 2)") auto
    from ih(1) m have "2 * 2 ^ m \<le> 2 * (n div 2)" by simp
    also have "\<dots> \<le> n" by simp
    finally have lo: "2 ^ (bit_length n - 1) \<le> n" by (simp add: bl m)
    from ih(2) have "n div 2 + 1 \<le> 2 ^ bit_length (n div 2)" by simp
    then have "2 * (n div 2) + 2 \<le> 2 * 2 ^ bit_length (n div 2)" by simp
    moreover have "n < 2 * (n div 2) + 2" by presburger
    ultimately have hi: "n < 2 ^ bit_length n" by (simp add: bl)
    from lo hi bl show ?thesis by simp
  qed
qed






lemma binade_upper:
  assumes "q \<noteq> 0"
  shows "\<bar>q\<bar> < 2 powi (binade q + 1)"
proof -
  obtain a b where ab: "quotient_of \<bar>q\<bar> = (a, b)" by (cases "quotient_of \<bar>q\<bar>")
  then have b: "0 < b" by (rule quotient_of_denom_pos)
  from ab have q: "\<bar>q\<bar> = of_int a / of_int b" by (rule quotient_of_div)
  from assms have "0 < \<bar>q\<bar>" by simp
  with q b have a: "0 < a" by (simp add: zero_less_divide_iff)
  let ?k = "int (bit_length a) - int (bit_length b)"
  show ?thesis
  proof (cases "\<bar>q\<bar> < 2 powi ?k")
    case True
    with ab show ?thesis by (simp add: binade_def)
  next
    case False
    with ab have bin: "binade q = ?k" by (simp add: binade_def)
    from bit_length_bounds [OF b] obtain m where m: "bit_length b = Suc m" and blo: "2 ^ m \<le> b"
      by (cases "bit_length b") auto
    from bit_length_bounds [OF a] have ahi: "a < 2 ^ bit_length a" by simp
    have "of_int a / rat_of_int b < 2 ^ bit_length a / of_int b"
    proof -
      from ahi have "rat_of_int a < 2 ^ bit_length a"
        by (metis of_int_less_iff of_int_numeral of_int_power)
      with b show ?thesis by (simp add: divide_strict_right_mono)
    qed
    also have "\<dots> \<le> 2 ^ bit_length a / 2 ^ m"
    proof -
      from blo have "(2::rat) ^ m \<le> of_int b"
        by (metis of_int_le_iff of_int_numeral of_int_power)
      then show ?thesis by (simp add: frac_le)
    qed
    also have "\<dots> = 2 powi (int (bit_length a) - int m)"
      by (simp add: power_int_diff)
    also have "\<dots> = 2 powi (?k + 1)"
      by (simp add: m)
    finally show ?thesis by (simp add: bin q)
  qed
qed






text \<open>
  The summary line: when the rest of \<open>main\<close> goes through and \<open>--verbose\<close> is set, the
  last thing it does is print the profile name and the minute count of the validity
  left at the clock's reading.
\<close>

lemma finish_verbose_summary:
  assumes "get_arns_from_assertion (decode_assertion w) saml = Inr saml_dict"
    and "get_sts_token w (RoleArn saml_dict) (PrincipalArn saml_dict) (SAMLAssertion saml_dict)
           = Inr aws_creds"
    and "profile a = Some profile_name"
    and "write_aws_creds (ini st) (aws_config_file w) profile_name (AccessKeyId aws_creds)
           (SecretAccessKey aws_creds) (SessionToken aws_creds) region output_format = Inr ini'"
    and "verbose a"
  shows "finish a w (Some saml) st
           = (Inr (), print (cred_details profile_name
                               (valid_minutes (Expiration aws_creds - now w)))
                        (st\<lparr>ini := ini'\<rparr>))"
  using assms by (simp add: finish_def bnd_def raise_from_def)





section \<open>The credentials file: properties\<close>














section \<open>The fallback from an expired session: properties\<close>

lemma get_saml_assertion_absent:
  assumes "\<forall>e \<in> set (find_all ''input'' soup). get_attr e ''name'' \<noteq> Some ''SAMLResponse''"
  shows "get_saml_assertion soup = None"
proof -
  from assms have "find (\<lambda>inputtag. get_attr inputtag ''name'' = Some ''SAMLResponse'')
                     (find_all ''input'' soup) = None"
    by (simp add: find_None_iff)
  then show ?thesis by (simp add: get_saml_assertion_def)
qed

lemma login_cases:
  "login a w st =
     (if asks_password a w st then password_login a w st
      else (Inr (get_saml_assertion (cookie_page w (the (available_sid a w st)))), st))"
  by (simp add: login_def asks_password_def cookie_page_def Let_def split: option.splits)


text \<open>
  C6. When a session identifier is available (from \<open>--sid\<close> or the cache file) and the
  cookie login's answer holds no input named \<open>SAMLResponse\<close>, the login step is the
  password login, started from the unchanged state: nothing has been printed, nothing
  has exited. The whole run is then the password login followed by the rest of \<open>main\<close>,
  and when those two go through, the process exits with status 0.
\<close>

theorem expired_session_falls_back:
  assumes "available_sid a w st = Some s"
    and "\<forall>e \<in> set (find_all ''input'' (cookie_page w s)). get_attr e ''name'' \<noteq> Some ''SAMLResponse''"
  shows "login a w st = password_login a w st
         \<and> main a w st = bnd (password_login a w) (finish a w) st
         \<and> (\<forall>x st1 st2. password_login a w st = (Inr (Some x), st1)
               \<longrightarrow> finish a w (Some x) st1 = (Inr (), st2)
               \<longrightarrow> run a w st = (SystemExit 0, st2))"
proof -
  from assms(2) have "get_saml_assertion (cookie_page w s) = None"
    by (rule get_saml_assertion_absent)
  with assms(1) have "asks_password a w st"
    by (simp add: asks_password_def)
  then have l: "login a w st = password_login a w st"
    by (simp add: login_cases)
  then have m: "main a w st = bnd (password_login a w) (finish a w) st"
    by (simp add: main_def bnd_def)
  have "run a w st = (SystemExit 0, st2)"
    if "password_login a w st = (Inr (Some x), st1)" and "finish a w (Some x) st1 = (Inr (), st2)"
    for x st1 st2
    using that by (simp add: run_def m bnd_def)
  with l m show ?thesis by blast
qed

text \<open>
  A cached identifier whose session has expired: the cookie login's answer is the login
  form, the password login goes through, and the run ends with status 0, having printed
  the summary only.
\<close>

theorem expired_session_falls_back_witness:
  "fst (run sample_args sample_world sample_state) = SystemExit 0
   \<and> stdout (snd (run sample_args sample_world sample_state))
       = [''Credentials for the profile Y have been set. They will expire in 2 minutes.'']"
proof -
  have h1: "available_sid sample_args sample_world sample_state = Some ''AAAAAAAAAAAAAAAAAAAAAAAAA''"
    by code_simp
  have h2: "\<forall>e \<in> set (find_all ''input'' (cookie_page sample_world ''AAAAAAAAAAAAAAAAAAAAAAAAA'')).
              get_attr e ''name'' \<noteq> Some ''SAMLResponse''"
    by code_simp
  from expired_session_falls_back [OF h1 h2]
  have m: "main sample_args sample_world sample_state
             = bnd (password_login sample_args sample_world) (finish sample_args sample_world)
                 sample_state"
    by blast
  have e: "fst (case bnd (password_login sample_args sample_world)
                       (finish sample_args sample_world) sample_state of
                  (Inl oc, st') \<Rightarrow> (oc, st')
                | (Inr u, st') \<Rightarrow> (SystemExit 0, st')) = SystemExit 0"
    by code_simp
  have p: "stdout (snd (case bnd (password_login sample_args sample_world)
                       (finish sample_args sample_world) sample_state of
                  (Inl oc, st') \<Rightarrow> (oc, st')
                | (Inr u, st') \<Rightarrow> (SystemExit 0, st')))
             = [''Credentials for the profile Y have been set. They will expire in 2 minutes.'']"
    by code_simp
  from e p show ?thesis
    unfolding run_def m by simp
qed

section \<open>Exit status: properties\<close>



lemma write_sid_file_ok:
  "(\<exists>fs. write_sid_file um files0 p s = Inr fs) = (files0 p \<noteq> Some Dir)"
  by (auto simp: write_sid_file_def split: option.splits entry.splits)















end
